theory Spec2Isabelle
  imports Complex_Main
begin

section \<open>Support sessions and the session store\<close>

text \<open>
  Modelled from the spec: the column types of the table \<open>support_sessions\<close>, whose
  schema (\<open>database/init.sql\<close>) is not among the sources. The record is a row of the
  table, with the columns that the handlers of the sessions router read and write. By
  the data model of the specification \<open>session_date\<close> is a calendar date (kept as its
  day number, days since 1970-01-01) and \<open>start_time\<close>, \<open>end_time\<close> are times of day
  (kept in minutes since midnight; the handlers only ever store whole minutes).
  Identifiers and the status are text. The source's column \<open>id\<close> is called
  \<open>session_id\<close> here, because \<open>id\<close> is the identity function of HOL, and the column
  \<open>notes\<close> is called \<open>session_notes\<close>, because \<open>notes\<close> is a keyword of Isabelle.
\<close>

record session =
  session_id :: string
  resident_id :: string
  support_worker_id :: string
  property_id :: string
  support_type :: string
  session_date :: int
  start_time :: nat
  end_time :: nat
  duration_minutes :: int
  status :: string
  session_notes :: "string option"
  created_by :: string

text \<open>The store is the list of rows of the table, in insertion order.\<close>

type_synonym store = "session list"

subsection \<open>The conflict query of the create handler\<close>

text \<open>
  The \<open>WHERE\<close> clause of the query \<open>conflictCheck\<close> in \<open>router.post('/create')\<close>:
  \<^verbatim>\<open>
  WHERE support_worker_id = $1 AND session_date = $2
    AND status NOT IN ('cancelled', 'no_show')
    AND ((start_time <= $3 AND end_time > $3)
         OR (start_time < $4 AND end_time >= $4)
         OR (start_time >= $3 AND end_time <= $4))
  \<close>
  The parameters \<open>$3\<close> and \<open>$4\<close> are the candidate's start and end time.
\<close>

definition conflict_where :: "string \<Rightarrow> int \<Rightarrow> nat \<Rightarrow> nat \<Rightarrow> session \<Rightarrow> bool" where
  "conflict_where p1 p2 p3 p4 s =
     (support_worker_id s = p1 \<and> session_date s = p2
      \<and> (status s \<noteq> ''cancelled'' \<and> status s \<noteq> ''no_show'')
      \<and> ((start_time s \<le> p3 \<and> end_time s > p3)
           \<or> (start_time s < p4 \<and> end_time s \<ge> p4)
           \<or> (start_time s \<ge> p3 \<and> end_time s \<le> p4)))"

definition conflict_rows :: "store \<Rightarrow> string \<Rightarrow> int \<Rightarrow> nat \<Rightarrow> nat \<Rightarrow> session list" where
  "conflict_rows db p1 p2 p3 p4 = filter (conflict_where p1 p2 p3 p4) db"

text \<open>\<open>SELECT id\<close>: the query returns the ids of the rows selected.\<close>

definition conflictCheck :: "store \<Rightarrow> string \<Rightarrow> int \<Rightarrow> nat \<Rightarrow> nat \<Rightarrow> string list" where
  "conflictCheck db p1 p2 p3 p4 = map session_id (conflict_rows db p1 p2 p3 p4)"

subsection \<open>Request bodies and their validation\<close>

text \<open>
  The fields of \<open>req.body\<close> that the create and update handlers read, as the text the
  form sends. \<open>body_status\<close> and \<open>body_notes\<close> are \<open>None\<close> when the field is absent;
  \<open>body_notes\<close> is the value after the sanitizer \<open>trim()\<close> of the validation chain.
\<close>

record body =
  body_resident_id :: string
  body_support_worker_id :: string
  body_property_id :: string
  body_support_type :: string
  body_session_date :: string
  body_start_time :: string
  body_end_time :: string
  body_duration_minutes :: string
  body_status :: "string option"
  body_notes :: "string option"

text \<open>
  What the handlers take from libraries and from the database server, whose code is not
  in the repository: the validators \<open>isUUID\<close> and \<open>isDate\<close> of express-validator, and
  the conversion of a date text to a \<open>DATE\<close> value by the database (\<open>None\<close> when the
  database rejects the text, which makes the query throw). They are parameters of the
  model, and every theorem below holds for all of them.
\<close>

record platform =
  isUUID :: "string \<Rightarrow> bool"
  isDate :: "string \<Rightarrow> bool"
  pg_date :: "string \<Rightarrow> int option"

definition is_digit :: "char \<Rightarrow> bool" where
  "is_digit c = (48 \<le> (of_char c :: nat) \<and> (of_char c :: nat) \<le> 57)"

definition digit_val :: "char \<Rightarrow> nat" where
  "digit_val c = of_char c - 48"

text \<open>
  The pattern of the validators of \<open>start_time\<close> and \<open>end_time\<close>,
  \<^verbatim>\<open>/^([01]?[0-9]|2[0-3]):[0-5][0-9]$/\<close>: one hour digit, or two hour digits from
  00 to 23, then a colon and two minute digits from 00 to 59.
\<close>

fun matches_time :: "string \<Rightarrow> bool" where
  "matches_time [h, c, m1, m2] =
     (is_digit h \<and> c = CHR '':'' \<and> (is_digit m1 \<and> digit_val m1 \<le> 5) \<and> is_digit m2)"
| "matches_time [h1, h2, c, m1, m2] =
     ((((h1 = CHR ''0'' \<or> h1 = CHR ''1'') \<and> is_digit h2)
        \<or> (h1 = CHR ''2'' \<and> is_digit h2 \<and> digit_val h2 \<le> 3))
      \<and> c = CHR '':'' \<and> (is_digit m1 \<and> digit_val m1 \<le> 5) \<and> is_digit m2)"
| "matches_time _ = False"

text \<open>
  The value the database gives a time text of that pattern when it binds it to a
  \<open>TIME\<close> parameter or column, in minutes since midnight (\<open>'9:30'\<close> and \<open>'09:30'\<close> are the
  same time of day).
\<close>

fun time_of_text :: "string \<Rightarrow> nat" where
  "time_of_text [h, c, m1, m2] = 60 * digit_val h + (10 * digit_val m1 + digit_val m2)"
| "time_of_text [h1, h2, c, m1, m2] =
     60 * (10 * digit_val h1 + digit_val h2) + (10 * digit_val m1 + digit_val m2)"
| "time_of_text _ = 0"

text \<open>
  JavaScript's \<open><\<close> on two strings: lexicographic on the character codes, a proper prefix
  being smaller. The create handler compares the two time texts with it.
\<close>

fun js_string_less :: "string \<Rightarrow> string \<Rightarrow> bool" where
  "js_string_less [] [] = False"
| "js_string_less [] (y # ys) = True"
| "js_string_less (x # xs) [] = False"
| "js_string_less (x # xs) (y # ys) =
     (if x = y then js_string_less xs ys else (of_char x :: nat) < of_char y)"

text \<open>
  \<open>isInt({ min: 15, max: 480 })\<close> on the text of \<open>duration_minutes\<close>: an optional sign
  and one or more decimal digits (validator.js allows leading zeroes unless told
  otherwise), whose value lies in the range. \<open>parseInt\<close> reads the same text.
\<close>

definition digits_value :: "string \<Rightarrow> nat" where
  "digits_value ds = foldl (\<lambda>n c. 10 * n + digit_val c) 0 ds"

definition int_text :: "string \<Rightarrow> bool" where
  "int_text s =
     (case s of
        [] \<Rightarrow> False
      | c # cs \<Rightarrow>
          if c = CHR ''+'' \<or> c = CHR ''-'' then cs \<noteq> [] \<and> list_all is_digit cs
          else list_all is_digit (c # cs))"

definition parseInt :: "string \<Rightarrow> int" where
  "parseInt s =
     (case s of
        [] \<Rightarrow> 0
      | c # cs \<Rightarrow>
          if c = CHR ''-'' then - int (digits_value cs)
          else if c = CHR ''+'' then int (digits_value cs)
          else int (digits_value (c # cs)))"

definition isInt_15_480 :: "string \<Rightarrow> bool" where
  "isInt_15_480 s = (int_text s \<and> 15 \<le> parseInt s \<and> parseInt s \<le> 480)"

definition support_types :: "string list" where
  "support_types = [''mental_health'', ''domestic_independence'', ''activity_group'']"

definition statuses :: "string list" where
  "statuses = [''planned'', ''completed'', ''cancelled'', ''no_show'']"

text \<open>
  The validation chain of \<open>router.post('/create')\<close>: \<open>validationResult(req).isEmpty()\<close>.
  The field \<open>status\<close> is optional here, \<open>notes\<close> has no validator.
\<close>

definition create_valid :: "platform \<Rightarrow> body \<Rightarrow> bool" where
  "create_valid P b =
     (isUUID P (body_resident_id b)
      \<and> isUUID P (body_support_worker_id b)
      \<and> isUUID P (body_property_id b)
      \<and> body_support_type b \<in> set support_types
      \<and> isDate P (body_session_date b)
      \<and> matches_time (body_start_time b)
      \<and> matches_time (body_end_time b)
      \<and> isInt_15_480 (body_duration_minutes b)
      \<and> (case body_status b of None \<Rightarrow> True | Some st \<Rightarrow> st \<in> set statuses))"

text \<open>The chain of \<open>router.post('/:id/edit')\<close>: the same, with \<open>status\<close> required.\<close>

definition edit_valid :: "platform \<Rightarrow> body \<Rightarrow> bool" where
  "edit_valid P b =
     (isUUID P (body_resident_id b)
      \<and> isUUID P (body_support_worker_id b)
      \<and> isUUID P (body_property_id b)
      \<and> body_support_type b \<in> set support_types
      \<and> isDate P (body_session_date b)
      \<and> matches_time (body_start_time b)
      \<and> matches_time (body_end_time b)
      \<and> isInt_15_480 (body_duration_minutes b)
      \<and> (case body_status b of None \<Rightarrow> False | Some st \<Rightarrow> st \<in> set statuses))"

subsection \<open>The create, update and delete handlers\<close>

text \<open>
  What a handler answers: a view rendered with an error message and the submitted form
  data, or a redirect. The other values handed to the views (the title and the option
  lists of properties, residents, workers and support types) are read from other tables
  and are left out.
\<close>

datatype response =
  Render string string body
  | Redirect string

text \<open>\<open>req.body.status || 'planned'\<close> and \<open>req.body.notes || null\<close>: an empty text is falsy.\<close>

definition status_or_planned :: "string option \<Rightarrow> string" where
  "status_or_planned st = (case st of None \<Rightarrow> ''planned'' | Some v \<Rightarrow> if v = [] then ''planned'' else v)"

definition or_null :: "string option \<Rightarrow> string option" where
  "or_null v = (case v of None \<Rightarrow> None | Some t \<Rightarrow> if t = [] then None else Some t)"

text \<open>
  \<open>router.post('/create')\<close>. \<open>new_id\<close> is the id the database gives the inserted row
  (\<open>RETURNING id\<close>), \<open>user\<close> is \<open>req.session.user.id\<close>. The handler answers with the
  store it leaves and its response. A date text that the database rejects makes the
  conflict query throw, which the handler catches. Other failures of the database (a
  lost connection, an id that matches no resident, worker or property) are not
  modelled.
\<close>

definition create :: "platform \<Rightarrow> string \<Rightarrow> string \<Rightarrow> store \<Rightarrow> body \<Rightarrow> store \<times> response" where
  "create P new_id user db b =
     (if \<not> create_valid P b then
        (db, Render ''sessions/create'' ''Please provide valid session information'' b)
      else if \<not> js_string_less (body_start_time b) (body_end_time b) then
        (db, Render ''sessions/create'' ''End time must be after start time'' b)
      else
        (case pg_date P (body_session_date b) of
           None \<Rightarrow> (db, Render ''sessions/create'' ''An error occurred creating the session'' b)
         | Some d \<Rightarrow>
             if conflictCheck db (body_support_worker_id b) d
                  (time_of_text (body_start_time b)) (time_of_text (body_end_time b)) \<noteq> []
             then (db, Render ''sessions/create''
                         ''Support worker is already scheduled at this time'' b)
             else
               (db @ [\<lparr> session_id = new_id,
                        resident_id = body_resident_id b,
                        support_worker_id = body_support_worker_id b,
                        property_id = body_property_id b,
                        support_type = body_support_type b,
                        session_date = d,
                        start_time = time_of_text (body_start_time b),
                        end_time = time_of_text (body_end_time b),
                        duration_minutes = parseInt (body_duration_minutes b),
                        status = status_or_planned (body_status b),
                        session_notes = or_null (body_notes b),
                        created_by = user \<rparr>],
                Redirect (''/sessions/'' @ new_id))))"

text \<open>
  \<open>router.post('/:id/edit')\<close>: after the validation chain the handler runs the \<open>UPDATE\<close>
  of the row with that id and redirects. \<open>created_by\<close> is not among the columns set.
\<close>

definition update_row :: "body \<Rightarrow> int \<Rightarrow> session \<Rightarrow> session" where
  "update_row b d s =
     s\<lparr> resident_id := body_resident_id b,
        support_worker_id := body_support_worker_id b,
        property_id := body_property_id b,
        support_type := body_support_type b,
        session_date := d,
        start_time := time_of_text (body_start_time b),
        end_time := time_of_text (body_end_time b),
        duration_minutes := parseInt (body_duration_minutes b),
        status := (case body_status b of None \<Rightarrow> [] | Some st \<Rightarrow> st),
        session_notes := or_null (body_notes b) \<rparr>"

definition edit :: "platform \<Rightarrow> store \<Rightarrow> string \<Rightarrow> body \<Rightarrow> store \<times> response" where
  "edit P db sid b =
     (if \<not> edit_valid P b then
        (db, Render ''sessions/edit'' ''Please provide valid session information'' b)
      else
        (case pg_date P (body_session_date b) of
           None \<Rightarrow> (db, Render ''sessions/edit'' ''An error occurred updating the session'' b)
         | Some d \<Rightarrow>
             (map (\<lambda>s. if session_id s = sid then update_row b d s else s) db,
              Redirect (''/sessions/'' @ sid))))"

text \<open>\<open>router.post('/:id/delete')\<close>: \<open>DELETE FROM support_sessions WHERE id = $1\<close>.\<close>

definition delete :: "store \<Rightarrow> string \<Rightarrow> store" where
  "delete db sid = filter (\<lambda>s. session_id s \<noteq> sid) db"

section \<open>Dates of JavaScript\<close>

text \<open>
  The calendar router computes with JavaScript \<open>Date\<close> objects. A \<open>Date\<close> is kept here as
  its day number, the number of days from 1970-01-01 to its calendar day (\<open>Day(t)\<close> of
  the ECMAScript specification). The time zone of the server is taken to be UTC, so that
  the local fields of a \<open>Date\<close> are its UTC fields. The time of day is left out:
  \<open>setDate\<close> keeps it, and the date part of \<open>toISOString\<close> does not depend on it. The
  range limit of \<open>Date\<close> (one hundred million days on each side of 1970-01-01) is not
  modelled. The functions below are the ones ECMAScript defines \<open>Date\<close> with.
\<close>

definition DaysInYear :: "int \<Rightarrow> int" where
  "DaysInYear y =
     (if y mod 4 \<noteq> 0 then 365
      else if y mod 100 \<noteq> 0 then 366
      else if y mod 400 \<noteq> 0 then 365
      else 366)"

definition DayFromYear :: "int \<Rightarrow> int" where
  "DayFromYear y = 365 * (y - 1970) + (y - 1969) div 4 - (y - 1901) div 100 + (y - 1601) div 400"

text \<open>
  The first day of the next year is \<open>DaysInYear\<close> days later. The two searches below
  terminate by this fact.
\<close>

lemma div_step: 
  fixes a n :: int
  assumes "0 < n"
  shows "(a + 1) div n = a div n + (if (a + 1) mod n = 0 then 1 else 0)"
proof (cases "(a + 1) mod n = 0")
  case True
  then obtain k where k: "a + 1 = n * k" by (auto simp: mod_eq_0_iff_dvd)
  then have a: "a = n * (k - 1) + (n - 1)" by (simp add: algebra_simps)
  have "a div n = k - 1"
    unfolding a using assms by (simp add: div_pos_pos_trivial)
  moreover have "(a + 1) div n = k"
    unfolding k using assms by simp
  ultimately show ?thesis using True by simp
next
  case False
  have m: "a mod n + 1 < n"
  proof -
    have "a mod n < n" using assms by simp
    moreover have "a mod n + 1 \<noteq> n"
    proof
      assume "a mod n + 1 = n"
      then have "(a mod n + 1) mod n = 0" by simp
      then have "(a + 1) mod n = 0" by (simp add: mod_add_left_eq)
      with False show False by simp
    qed
    ultimately show ?thesis by linarith
  qed
  have e: "a + 1 = (a mod n + 1) + (a div n) * n" by simp
  have "((a mod n + 1) + (a div n) * n) div n = a div n + (a mod n + 1) div n"
    using assms div_mult_self1 [of n "a mod n + 1" "a div n"] by linarith
  then have "(a + 1) div n = a div n + (a mod n + 1) div n"
    using e by (simp only:)
  also have "(a mod n + 1) div n = 0"
    using m assms by (simp add: div_pos_pos_trivial)
  finally show ?thesis using False by simp
qed

lemma mod_shift:
  fixes y n k :: int
  shows "(y - n * k) mod n = y mod n"
  using mod_mult_self2 [of y n "- k"] by simp

lemma shifts:
  fixes y :: int
  shows "(y - 1968) mod 4 = y mod 4" "(y - 1900) mod 100 = y mod 100" "(y - 1600) mod 400 = y mod 400"
  using mod_shift [of y 4 492] mod_shift [of y 100 19] mod_shift [of y 400 4] by simp_all

lemma DayFromYear_next: "DayFromYear (y + 1) = DayFromYear y + DaysInYear y"
proof -
  define q4 q100 q400 where "q4 = (y - 1969) div 4" and "q100 = (y - 1901) div 100"
    and "q400 = (y - 1601) div 400"
  define l4 l100 l400 where "l4 \<longleftrightarrow> y mod 4 = 0" and "l100 \<longleftrightarrow> y mod 100 = 0"
    and "l400 \<longleftrightarrow> y mod 400 = 0"
  have a: "(y - 1968) div 4 = q4 + (if l4 then 1 else 0)"
    unfolding q4_def l4_def using div_step [of 4 "y - 1969"] shifts(1) [of y] by simp
  have b: "(y - 1900) div 100 = q100 + (if l100 then 1 else 0)"
    unfolding q100_def l100_def using div_step [of 100 "y - 1901"] shifts(2) [of y] by simp
  have c: "(y - 1600) div 400 = q400 + (if l400 then 1 else 0)"
    unfolding q400_def l400_def using div_step [of 400 "y - 1601"] shifts(3) [of y] by simp
  have d: "l100 \<Longrightarrow> l4" "l400 \<Longrightarrow> l100"
    unfolding l4_def l100_def l400_def mod_eq_0_iff_dvd
    using dvd_trans [of 4 100 y] dvd_trans [of 100 400 y] by simp_all
  have e: "DayFromYear (y + 1) = 365 * (y - 1969) + (y - 1968) div 4 - (y - 1900) div 100
             + (y - 1600) div 400"
    by (simp add: DayFromYear_def)
  have f: "DayFromYear y = 365 * (y - 1970) + q4 - q100 + q400"
    by (simp add: DayFromYear_def q4_def q100_def q400_def)
  have g: "DaysInYear y = (if \<not> l4 then 365 else if \<not> l100 then 366 else if \<not> l400 then 365 else 366)"
    by (simp add: DaysInYear_def l4_def l100_def l400_def)
  show ?thesis
    unfolding e f g a b c using d by (cases l4; cases l100; cases l400; simp)
qed

lemma DaysInYear_bounds: "365 \<le> DaysInYear y" "DaysInYear y \<le> 366"
  by (simp_all add: DaysInYear_def)

lemma DayFromYear_prev: "DayFromYear (y - 1) = DayFromYear y - DaysInYear (y - 1)"
  using DayFromYear_next [of "y - 1"] by simp

text \<open>
  \<open>YearFromTime\<close>: the largest year whose first day is not after the day \<open>d\<close>. It is
  found by a search from an estimate, first down to a year that starts on or before \<open>d\<close>,
  then up to the last such year.
\<close>

function year_down :: "int \<Rightarrow> int \<Rightarrow> int" where
  "year_down y d = (if d < DayFromYear y then year_down (y - 1) d else y)"
  by pat_completeness auto
termination
proof (relation "measure (\<lambda>(y, d). nat (DayFromYear y - d))")
  show "wf (measure (\<lambda>(y, d). nat (DayFromYear y - d)))" by simp
next
  fix y d :: int
  assume "d < DayFromYear y"
  then show "((y - 1, d), (y, d)) \<in> measure (\<lambda>(y, d). nat (DayFromYear y - d))"
    using DayFromYear_prev [of y] DaysInYear_bounds(1) [of "y - 1"] by simp
qed

function year_up :: "int \<Rightarrow> int \<Rightarrow> int" where
  "year_up y d = (if DayFromYear (y + 1) \<le> d then year_up (y + 1) d else y)"
  by pat_completeness auto
termination
proof (relation "measure (\<lambda>(y, d). nat (d + 1 - DayFromYear (y + 1)))")
  show "wf (measure (\<lambda>(y, d). nat (d + 1 - DayFromYear (y + 1))))" by simp
next
  fix y d :: int
  assume "DayFromYear (y + 1) \<le> d"
  then show "((y + 1, d), (y, d)) \<in> measure (\<lambda>(y, d). nat (d + 1 - DayFromYear (y + 1)))"
    using DayFromYear_next [of "y + 1"] DaysInYear_bounds(1) [of "y + 1"] by simp
qed

declare year_down.simps [simp del] year_up.simps [simp del]

definition YearFromDay :: "int \<Rightarrow> int" where
  "YearFromDay d = year_up (year_down (1970 + d div 365) d) d"

text \<open>
  \<open>InLeapYear\<close>, \<open>DayWithinYear\<close>, \<open>MonthFromTime\<close> (months count from 0) and
  \<open>DateFromTime\<close>. \<open>month_start m l\<close> is the day within the year on which month \<open>m\<close>
  starts, \<open>month_end m l\<close> the day on which the next month starts, in a year with leap
  day count \<open>l\<close>; \<open>month_of\<close> is the table of \<open>MonthFromTime\<close>.
\<close>

definition leap_of_year :: "int \<Rightarrow> int" where
  "leap_of_year y = (if DaysInYear y = 366 then 1 else 0)"

definition InLeapYear :: "int \<Rightarrow> int" where
  "InLeapYear d = leap_of_year (YearFromDay d)"

definition DayWithinYear :: "int \<Rightarrow> int" where
  "DayWithinYear d = d - DayFromYear (YearFromDay d)"

definition month_start :: "int \<Rightarrow> int \<Rightarrow> int" where
  "month_start m l =
     (if m = 0 then 0 else if m = 1 then 31 else if m = 2 then 59 + l
      else if m = 3 then 90 + l else if m = 4 then 120 + l else if m = 5 then 151 + l
      else if m = 6 then 181 + l else if m = 7 then 212 + l else if m = 8 then 243 + l
      else if m = 9 then 273 + l else if m = 10 then 304 + l else 334 + l)"


definition month_of :: "int \<Rightarrow> int \<Rightarrow> int" where
  "month_of w l =
     (if w < 31 then 0 else if w < 59 + l then 1 else if w < 90 + l then 2
      else if w < 120 + l then 3 else if w < 151 + l then 4 else if w < 181 + l then 5
      else if w < 212 + l then 6 else if w < 243 + l then 7 else if w < 273 + l then 8
      else if w < 304 + l then 9 else if w < 334 + l then 10 else 11)"

definition MonthFromDay :: "int \<Rightarrow> int" where
  "MonthFromDay d = month_of (DayWithinYear d) (InLeapYear d)"

definition DateFromDay :: "int \<Rightarrow> int" where
  "DateFromDay d = DayWithinYear d - month_start (MonthFromDay d) (InLeapYear d) + 1"

text \<open>
  \<open>MakeDay\<close>: the day number of day \<open>dt\<close> of the month \<open>month\<close> (counted from 0) of
  \<open>year\<close>; a month outside 0 to 11 carries into the year, a day outside the month
  carries into the neighbouring months.
\<close>

definition MakeDay :: "int \<Rightarrow> int \<Rightarrow> int \<Rightarrow> int" where
  "MakeDay year month dt =
     (let ym = year + month div 12; mn = month mod 12
      in DayFromYear ym + month_start mn (leap_of_year ym) + dt - 1)"



definition getDay :: "int \<Rightarrow> int" where
  "getDay d = (d + 4) mod 7"

definition getDate :: "int \<Rightarrow> int" where
  "getDate d = DateFromDay d"


definition setDate :: "int \<Rightarrow> int \<Rightarrow> int" where
  "setDate d dt = MakeDay (YearFromDay d) (MonthFromDay d) dt"

text \<open>
  \<open>toISOString().split('T')[0]\<close>, the text \<open>YYYY-MM-DD\<close>, is kept as its three numbers:
  year, month from 1 to 12, day of the month. \<open>toDateString()\<close> is kept as the four
  values it prints: weekday, month, day and year.
\<close>

type_synonym iso_date = "int \<times> int \<times> int"

definition toISODate :: "int \<Rightarrow> iso_date" where
  "toISODate d = (YearFromDay d, MonthFromDay d + 1, DateFromDay d)"

definition toDateString :: "int \<Rightarrow> int \<times> int \<times> int \<times> int" where
  "toDateString d = (getDay d, MonthFromDay d, DateFromDay d, YearFromDay d)"

section \<open>The calendar grids\<close>

text \<open>
  The cells of the monthly and of the weekly grid. Both have the fields \<open>date\<close> (the day
  of the month), \<open>fullDate\<close>, \<open>isToday\<close> and \<open>sessions\<close>; the monthly cell adds
  \<open>isCurrentMonth\<close>, the weekly cell \<open>dayName\<close>.
\<close>

record cell =
  date :: int
  fullDate :: iso_date
  isToday :: bool
  sessions :: "session list"


record week_cell = cell +
  dayName :: string







text \<open>
  The text of a natural number in decimal (\<open>toString()\<close>), \<open>padStart(2, '0')\<close>, and the
  label of a time slot.
\<close>

definition digit_char :: "nat \<Rightarrow> char" where
  "digit_char n = char_of (48 + n)"

function number_text :: "nat \<Rightarrow> string" where
  "number_text n = (if n < 10 then [digit_char n] else number_text (n div 10) @ [digit_char (n mod 10)])"
  by pat_completeness auto
termination
  by (relation "measure (\<lambda>n. n)") auto

declare number_text.simps [simp del]

definition padStart2 :: "string \<Rightarrow> string" where
  "padStart2 s = replicate (2 - length s) (CHR ''0'') @ s"

definition timeString :: "nat \<Rightarrow> nat \<Rightarrow> string" where
  "timeString hour minute = padStart2 (number_text hour) @ '':'' @ padStart2 (number_text minute)"

text \<open>
  The time slots of \<open>generateWeeklyCalendar\<close>: the loop over \<open>minute\<close> (from 0 in steps
  of 30 while it is below 60, left by \<open>break\<close> at hour 18 once \<open>minute\<close> is positive)
  inside the loop over \<open>hour\<close> (from 9 while it is at most 18).
\<close>

function minute_loop :: "nat \<Rightarrow> nat \<Rightarrow> string list \<Rightarrow> string list" where
  "minute_loop hour minute slots =
     (if minute < 60 then
        (if hour = 18 \<and> minute > 0 then slots
         else minute_loop hour (minute + 30) (slots @ [timeString hour minute]))
      else slots)"
  by pat_completeness auto
termination
  by (relation "measure (\<lambda>(hour, minute, slots). 60 - minute)") auto

function hour_loop :: "nat \<Rightarrow> string list \<Rightarrow> string list" where
  "hour_loop hour slots =
     (if hour \<le> 18 then hour_loop (hour + 1) (minute_loop hour 0 slots) else slots)"
  by pat_completeness auto
termination
  by (relation "measure (\<lambda>(hour, slots). 19 - hour)") auto

declare minute_loop.simps [simp del] hour_loop.simps [simp del]

text \<open>
  \<open>generateWeeklyCalendar(startDate, sessions)\<close>. \<open>short_weekday\<close> is
  \<open>toLocaleDateString('en-GB', { weekday: 'short' })\<close>; \<open>week_day\<close> is the body of the
  loop over the seven days.
\<close>

definition short_weekday :: "int \<Rightarrow> string" where
  "short_weekday d = [''Sun'', ''Mon'', ''Tue'', ''Wed'', ''Thu'', ''Fri'', ''Sat''] ! nat (getDay d)"

record week_calendar =
  days :: "week_cell list"
  timeSlots :: "string list"

definition week_day :: "int \<Rightarrow> int \<Rightarrow> session list \<Rightarrow> nat \<Rightarrow> week_cell" where
  "week_day today startDate ss i =
     (let d = setDate startDate (getDate startDate + int i);
          dateKey = toISODate d
      in \<lparr> date = getDate d,
           fullDate = dateKey,
           isToday = (toDateString d = toDateString today),
           sessions = filter (\<lambda>s. toISODate (session_date s) = dateKey) ss,
           dayName = short_weekday d \<rparr>)"

definition generateWeeklyCalendar :: "int \<Rightarrow> int \<Rightarrow> session list \<Rightarrow> week_calendar" where
  "generateWeeklyCalendar today startDate ss =
     \<lparr> days = map (week_day today startDate ss) [0 ..< 7],
       timeSlots = hour_loop 9 [] \<rparr>"

subsection \<open>Navigation\<close>

text \<open>
  \<open>generateNavigation(view, year, month, week, date)\<close>. The anchors \<open>week\<close> and \<open>date\<close>
  are texts, or absent; a date text is either the date part of \<open>toISOString\<close> or the
  text that was passed in. \<open>parseDate\<close> is the constructor \<open>new Date(text)\<close>, which is
  part of the platform: it gives the day number of the text, or \<open>None\<close> for an invalid
  date, on which \<open>toISOString\<close> throws a \<open>RangeError\<close>.
\<close>

datatype js_error = RangeError | TypeError






section \<open>Reports\<close>

text \<open>
  Numbers. The hours and rates of the reports are \<open>NUMERIC\<close> values of the database and
  numbers of JavaScript; both are kept as exact rationals, so the rounding of either
  number system below the digits shown is not modelled.

  A numeric value of a row arrives in JavaScript either as a number or as a text (the
  database driver decides by the type of the column; its code and the schema are not
  in the repository): \<open>Num q\<close> is the number \<open>q\<close>, \<open>NumText t q\<close> is the text \<open>t\<close> together
  with the number \<open>q\<close> it stands for. The parameter \<open>driver\<close> says for each value of the
  database how it arrives, and \<open>delivered\<close> is the value as it arrives. The arithmetic
  operators of JavaScript (\<open>/\<close>, \<open>*\<close>, \<open>-\<close>, \<open>>\<close>) turn both kinds of operands into
  numbers (\<open>num_value\<close>), and \<open>null\<close> into 0 (\<open>to_number\<close>); a method of numbers, such as
  \<open>toFixed\<close>, exists on a number only. A field that holds either the number 0 or the
  text made by \<open>toFixed\<close> is a \<open>js_value\<close>.
\<close>

datatype js_num = Num rat | NumText string rat

datatype delivery = AsNumber | AsText string

definition delivered :: "(rat \<Rightarrow> delivery) \<Rightarrow> rat \<Rightarrow> js_num" where
  "delivered driver q = (case driver q of AsNumber \<Rightarrow> Num q | AsText t \<Rightarrow> NumText t q)"

definition num_value :: "js_num \<Rightarrow> rat" where
  "num_value v = (case v of Num q \<Rightarrow> q | NumText t q \<Rightarrow> q)"

definition to_number :: "js_num option \<Rightarrow> rat" where
  "to_number v = (case v of None \<Rightarrow> 0 | Some n \<Rightarrow> num_value n)"

definition is_number :: "js_num \<Rightarrow> bool" where
  "is_number v = (case v of Num q \<Rightarrow> True | NumText t q \<Rightarrow> False)"

datatype js_value = JNum rat | JStr string

text \<open>
  The text of a number. \<open>integer_text\<close> is the decimal text of an integer. For a number
  that is an integer below \<open>10^21\<close> in absolute value, JavaScript's conversion to text
  gives that decimal text; for every other number it gives the shortest decimal or
  exponent notation that identifies the floating-point number, for which the parameter
  \<open>numtext\<close> stands. Every theorem below holds for all \<open>numtext\<close> and all \<open>driver\<close>.
\<close>

definition integer_text :: "int \<Rightarrow> string" where
  "integer_text i = (if i < 0 then ''-'' @ number_text (nat (- i)) else number_text (nat i))"

definition number_to_text :: "(rat \<Rightarrow> string) \<Rightarrow> rat \<Rightarrow> string" where
  "number_to_text numtext q =
     (if of_int \<lfloor>q\<rfloor> = q \<and> \<bar>q\<bar> < 10 ^ 21 then integer_text \<lfloor>q\<rfloor> else numtext q)"

text \<open>
  \<open>x.toFixed(1)\<close> on a number \<open>x\<close>: the sign, then, below \<open>10^21\<close>, the digits of the
  integer \<open>n\<close> for which \<open>n / 10\<close> is nearest to \<open>x\<close> (the larger one of two), with a
  point before the last digit. \<open>call_toFixed1\<close> is the call \<open>v.toFixed(1)\<close> on a value
  that may be a text, on which it throws a \<open>TypeError\<close>.
\<close>

definition toFixed1 :: "(rat \<Rightarrow> string) \<Rightarrow> rat \<Rightarrow> string" where
  "toFixed1 numtext x =
     (if x < 0 then ''-'' else []) @
     (if \<bar>x\<bar> \<ge> 10 ^ 21 then number_to_text numtext \<bar>x\<bar>
      else (let n = nat \<lfloor>\<bar>x\<bar> * 10 + 1 / 2\<rfloor>
            in number_text (n div 10) @ ''.'' @ number_text (n mod 10)))"

definition call_toFixed1 :: "(rat \<Rightarrow> string) \<Rightarrow> js_num \<Rightarrow> js_error + string" where
  "call_toFixed1 numtext v =
     (case v of Num q \<Rightarrow> Inr (toFixed1 numtext q) | NumText t q \<Rightarrow> Inl TypeError)"

text \<open>
  A row of the query of \<open>getMonthlyUtilization\<close>, and the object that the function makes
  of it: the row with the two fields \<open>utilization_rate\<close> and \<open>remaining_hours\<close> added.
  The source's column \<open>id\<close> is called \<open>row_id\<close> here. \<open>getMonthlyUtilization\<close> takes the
  rows of the query, \<open>result.rows\<close>.
\<close>

record monthly_row =
  row_id :: string
  first_name :: string
  last_name :: string
  monthly_support_hours :: "js_num option"
  property_name :: "string option"
  hours_used :: js_num
  hours_planned :: js_num
  hours_cancelled :: js_num
  completed_sessions :: nat
  no_show_sessions :: nat

record resident_report = monthly_row +
  utilization_rate :: js_value
  remaining_hours :: rat

definition resident_report_of :: "(rat \<Rightarrow> string) \<Rightarrow> monthly_row \<Rightarrow> resident_report" where
  "resident_report_of numtext row =
     \<lparr> row_id = row_id row, first_name = first_name row, last_name = last_name row,
       monthly_support_hours = monthly_support_hours row,
       property_name = property_name row,
       hours_used = hours_used row, hours_planned = hours_planned row,
       hours_cancelled = hours_cancelled row,
       completed_sessions = completed_sessions row,
       no_show_sessions = no_show_sessions row,
       utilization_rate =
         (if to_number (monthly_support_hours row) > 0
          then JStr (toFixed1 numtext
                 ((num_value (hours_used row) / to_number (monthly_support_hours row)) * 100))
          else JNum 0),
       remaining_hours = to_number (monthly_support_hours row) - num_value (hours_used row) \<rparr>"

definition getMonthlyUtilization :: "(rat \<Rightarrow> string) \<Rightarrow> monthly_row list \<Rightarrow> resident_report list" where
  "getMonthlyUtilization numtext rows = map (resident_report_of numtext) rows"

text \<open>
  The same for \<open>getPropertyUtilization\<close> (field \<open>occupancy_rate\<close>) and for
  \<open>getWorkerPerformance\<close> (fields \<open>utilization_rate\<close> and \<open>completion_rate\<close>). Field
  names that the three kinds of rows share carry the prefix \<open>p_\<close> or \<open>w_\<close> here. The
  counts of a row are kept as natural numbers.
\<close>

record property_row =
  p_id :: string
  p_name :: string
  max_capacity :: "js_num option"
  current_residents :: nat
  p_total_sessions :: nat
  p_total_hours :: js_num
  p_completed_sessions :: nat
  p_cancelled_sessions :: nat

record property_report = property_row +
  occupancy_rate :: js_value

definition property_report_of :: "(rat \<Rightarrow> string) \<Rightarrow> property_row \<Rightarrow> property_report" where
  "property_report_of numtext row =
     \<lparr> p_id = p_id row, p_name = p_name row, max_capacity = max_capacity row,
       current_residents = current_residents row,
       p_total_sessions = p_total_sessions row, p_total_hours = p_total_hours row,
       p_completed_sessions = p_completed_sessions row,
       p_cancelled_sessions = p_cancelled_sessions row,
       occupancy_rate =
         (if to_number (max_capacity row) > 0
          then JStr (toFixed1 numtext
                 ((of_nat (current_residents row) / to_number (max_capacity row)) * 100))
          else JNum 0) \<rparr>"

definition getPropertyUtilization :: "(rat \<Rightarrow> string) \<Rightarrow> property_row list \<Rightarrow> property_report list" where
  "getPropertyUtilization numtext rows = map (property_report_of numtext) rows"

record worker_row =
  w_id :: string
  w_first_name :: string
  w_last_name :: string
  max_hours_per_month :: "js_num option"
  w_total_sessions :: nat
  hours_worked :: js_num
  w_completed_sessions :: nat
  w_cancelled_sessions :: nat
  w_no_show_sessions :: nat
  avg_session_duration :: "js_num option"

record worker_report = worker_row +
  w_utilization_rate :: js_value
  completion_rate :: js_value

definition worker_report_of :: "(rat \<Rightarrow> string) \<Rightarrow> worker_row \<Rightarrow> worker_report" where
  "worker_report_of numtext row =
     \<lparr> w_id = w_id row, w_first_name = w_first_name row, w_last_name = w_last_name row,
       max_hours_per_month = max_hours_per_month row,
       w_total_sessions = w_total_sessions row, hours_worked = hours_worked row,
       w_completed_sessions = w_completed_sessions row,
       w_cancelled_sessions = w_cancelled_sessions row,
       w_no_show_sessions = w_no_show_sessions row,
       avg_session_duration = avg_session_duration row,
       w_utilization_rate =
         (if to_number (max_hours_per_month row) > 0
          then JStr (toFixed1 numtext
                 ((num_value (hours_worked row) / to_number (max_hours_per_month row)) * 100))
          else JNum 0),
       completion_rate =
         (if w_total_sessions row > 0
          then JStr (toFixed1 numtext
                 ((of_nat (w_completed_sessions row) / of_nat (w_total_sessions row)) * 100))
          else JNum 0) \<rparr>"

definition getWorkerPerformance :: "(rat \<Rightarrow> string) \<Rightarrow> worker_row list \<Rightarrow> worker_report list" where
  "getWorkerPerformance numtext rows = map (worker_report_of numtext) rows"

text \<open>
  Modelled from the spec: the columns of the tables \<open>residents\<close> and \<open>properties\<close> that
  the query reads (the schema is not among the sources); \<open>monthly_support_hours\<close> is a
  number of hours that may be absent.

  The query of \<open>getMonthlyUtilization\<close>. It has one row for each active resident \<open>r\<close>
  (ids are primary keys), in the order of the residents' names; \<open>monthly_sql_row\<close> is
  that row. \<open>joined_sessions\<close> are the sessions that the \<open>LEFT JOIN\<close> gives the resident:
  those of the resident whose date lies in the year and month asked for.
  \<open>sum_minutes st\<close> is \<open>COALESCE(SUM(CASE WHEN s.status = st THEN s.duration_minutes ELSE 0
  END), 0)\<close> and \<open>count_status st\<close> is \<open>COUNT(CASE WHEN s.status = st THEN 1 END)\<close>.
\<close>

record resident =
  res_id :: string
  res_first_name :: string
  res_last_name :: string
  res_property_id :: "string option"
  res_monthly_support_hours :: "rat option"
  res_is_active :: bool

record property =
  prop_id :: string
  prop_name :: string

definition joined_sessions :: "resident \<Rightarrow> session list \<Rightarrow> int \<Rightarrow> int \<Rightarrow> session list" where
  "joined_sessions r ss year month =
     filter (\<lambda>s. res_id r = resident_id s
                 \<and> YearFromDay (session_date s) = year
                 \<and> MonthFromDay (session_date s) + 1 = month) ss"

definition sum_minutes :: "string \<Rightarrow> session list \<Rightarrow> int" where
  "sum_minutes st js = sum_list (map (\<lambda>s. if status s = st then duration_minutes s else 0) js)"

definition count_status :: "string \<Rightarrow> session list \<Rightarrow> nat" where
  "count_status st js = length (filter (\<lambda>s. status s = st) js)"

definition joined_property_name :: "resident \<Rightarrow> property list \<Rightarrow> string option" where
  "joined_property_name r ps =
     (case res_property_id r of
        None \<Rightarrow> None
      | Some i \<Rightarrow> map_option prop_name (find (\<lambda>p. prop_id p = i) ps))"

definition monthly_sql_row ::
  "(rat \<Rightarrow> delivery) \<Rightarrow> property list \<Rightarrow> session list \<Rightarrow> int \<Rightarrow> int \<Rightarrow> resident \<Rightarrow> monthly_row" where
  "monthly_sql_row driver ps ss year month r =
     (let js = joined_sessions r ss year month
      in \<lparr> row_id = res_id r, first_name = res_first_name r, last_name = res_last_name r,
           monthly_support_hours = map_option (delivered driver) (res_monthly_support_hours r),
           property_name = joined_property_name r ps,
           hours_used = delivered driver (of_int (sum_minutes ''completed'' js) / 60),
           hours_planned = delivered driver (of_int (sum_minutes ''planned'' js) / 60),
           hours_cancelled = delivered driver (of_int (sum_minutes ''cancelled'' js) / 60),
           completed_sessions = count_status ''completed'' js,
           no_show_sessions = count_status ''no_show'' js \<rparr>)"

subsection \<open>The CSV export\<close>

text \<open>
  \<open>generateCSV(data)\<close> reads \<open>data.residents\<close>, the result of \<open>getMonthlyUtilization\<close>.
  \<open>join\<close> is \<open>Array.prototype.join\<close>; \<open>value_text\<close> and \<open>num_text\<close> are the conversion to
  text of a value inside a template literal; \<open>or_blank\<close> is
  \<open>resident.property_name || ''\<close>; \<open>quoted\<close> is the template \<open>"${cell}"\<close>. \<open>csv_cells\<close> is
  the function that \<open>data.residents.map\<close> applies, and \<open>map_rows\<close> is that \<open>map\<close>: the
  first call that throws ends it.
\<close>

definition dquote :: char where
  "dquote = CHR 0x22"

definition newline :: char where
  "newline = CHR 0x0A"

fun join :: "string \<Rightarrow> string list \<Rightarrow> string" where
  "join sep [] = []"
| "join sep [x] = x"
| "join sep (x # y # ys) = x @ sep @ join sep (y # ys)"

definition value_text :: "(rat \<Rightarrow> string) \<Rightarrow> js_value \<Rightarrow> string" where
  "value_text numtext v = (case v of JNum q \<Rightarrow> number_to_text numtext q | JStr t \<Rightarrow> t)"

definition num_text :: "(rat \<Rightarrow> string) \<Rightarrow> js_num option \<Rightarrow> string" where
  "num_text numtext v =
     (case v of
        None \<Rightarrow> ''null''
      | Some (Num q) \<Rightarrow> number_to_text numtext q
      | Some (NumText t q) \<Rightarrow> t)"

definition or_blank :: "string option \<Rightarrow> string" where
  "or_blank v = (case v of None \<Rightarrow> [] | Some t \<Rightarrow> t)"

definition csv_headers :: "string list" where
  "csv_headers = [''Resident Name'', ''Property'', ''Allocated Hours'', ''Hours Used'',
                  ''Utilization Rate'', ''Remaining Hours'']"

definition csv_cells :: "(rat \<Rightarrow> string) \<Rightarrow> resident_report \<Rightarrow> js_error + string list" where
  "csv_cells numtext resident =
     (case call_toFixed1 numtext (hours_used resident) of
        Inl e \<Rightarrow> Inl e
      | Inr used \<Rightarrow>
          Inr [first_name resident @ '' '' @ last_name resident,
               or_blank (property_name resident),
               num_text numtext (monthly_support_hours resident),
               used,
               value_text numtext (utilization_rate resident) @ ''%'',
               toFixed1 numtext (remaining_hours resident)])"

fun map_rows :: "('a \<Rightarrow> js_error + 'b) \<Rightarrow> 'a list \<Rightarrow> js_error + 'b list" where
  "map_rows f [] = Inr []"
| "map_rows f (x # xs) =
     (case f x of
        Inl e \<Rightarrow> Inl e
      | Inr y \<Rightarrow> (case map_rows f xs of Inl e \<Rightarrow> Inl e | Inr ys \<Rightarrow> Inr (y # ys)))"

definition quoted :: "string \<Rightarrow> string" where
  "quoted cell = [dquote] @ cell @ [dquote]"

definition generateCSV :: "(rat \<Rightarrow> string) \<Rightarrow> resident_report list \<Rightarrow> js_error + string" where
  "generateCSV numtext residents =
     (case map_rows (csv_cells numtext) residents of
        Inl e \<Rightarrow> Inl e
      | Inr rows \<Rightarrow>
          Inr (join [newline] (map (\<lambda>row. join '','' (map quoted row)) (csv_headers # rows))))"

subsection \<open>Overlap of two stored sessions\<close>

text \<open>
  Two distinct rows are in conflict when they have the same worker and date, both are
  active (neither cancelled nor no_show), both have their start before their end, and
  their half-open intervals overlap.
\<close>

definition active_overlap :: "session \<Rightarrow> session \<Rightarrow> bool" where
  "active_overlap a b =
     (session_id a \<noteq> session_id b
      \<and> support_worker_id a = support_worker_id b \<and> session_date a = session_date b
      \<and> (status a \<noteq> ''cancelled'' \<and> status a \<noteq> ''no_show'')
      \<and> (status b \<noteq> ''cancelled'' \<and> status b \<noteq> ''no_show'')
      \<and> start_time a < end_time a \<and> start_time b < end_time b
      \<and> start_time a < end_time b \<and> start_time b < end_time a)"

text \<open>A store is free of conflicts when no two of its rows are in conflict.\<close>

definition overlap_free :: "store \<Rightarrow> bool" where
  "overlap_free db = (\<forall>a \<in> set db. \<forall>b \<in> set db. \<not> active_overlap a b)"

subsection \<open>Example data\<close>

text \<open>
  A platform, request bodies and rows used to evaluate the handlers on concrete inputs.
  The day number 19783 is 2024-03-01.
\<close>

definition example_platform :: platform where
  "example_platform =
     \<lparr> isUUID = (\<lambda>s. length s = 2), isDate = (\<lambda>s. length s = 10),
       pg_date = (\<lambda>s. if s = ''2024-03-01'' then Some 19783 else None) \<rparr>"

definition example_body :: "string \<Rightarrow> string \<Rightarrow> string \<Rightarrow> body" where
  "example_body t1 t2 dur =
     \<lparr> body_resident_id = ''r1'', body_support_worker_id = ''w1'', body_property_id = ''p1'',
       body_support_type = ''mental_health'', body_session_date = ''2024-03-01'',
       body_start_time = t1, body_end_time = t2, body_duration_minutes = dur,
       body_status = None, body_notes = None \<rparr>"

definition example_session :: "string \<Rightarrow> nat \<Rightarrow> nat \<Rightarrow> int \<Rightarrow> session" where
  "example_session i t1 t2 dur =
     \<lparr> session_id = i, resident_id = ''r1'', support_worker_id = ''w1'', property_id = ''p1'',
       support_type = ''mental_health'', session_date = 19783, start_time = t1, end_time = t2,
       duration_minutes = dur, status = ''planned'', session_notes = None, created_by = ''u1'' \<rparr>"

definition example_edit_body :: body where
  "example_edit_body = (example_body ''09:30'' ''10:30'' ''60'')\<lparr> body_status := Some ''planned'' \<rparr>"

text \<open>
  A session on 2024-02-01 (day number 19754), and a parser of date texts that knows
  the text \<open>2024-03-03\<close> (day number 19785, a Sunday).
\<close>

definition example_february_session :: session where
  "example_february_session = (example_session ''s1'' 540 600 60)\<lparr> session_date := 19754 \<rparr>"


text \<open>
  Residents, rows and sessions for the reports: a resident with 2 hours allocated, two
  completed sessions of 60 and 30 minutes and a planned one on 2024-03-01, a resident
  whose name has a double quote and a comma, and rows with 0 and with 3 hours allocated.
  \<open>number_driver\<close> delivers every value as a number, \<open>text_driver\<close> as a decimal text.
\<close>

definition example_numtext :: "rat \<Rightarrow> string" where
  "example_numtext q = ''?''"


definition text_driver :: "rat \<Rightarrow> delivery" where
  "text_driver q =
     AsText (if q = 3 / 2 then ''1.5000000000000000''
             else if q = 2 then ''2.00''
             else if q = 1 then ''1.0000000000000000''
             else ''0.0000000000000000'')"

definition example_resident :: resident where
  "example_resident =
     \<lparr> res_id = ''r1'', res_first_name = ''Ann'', res_last_name = ''Lee'',
       res_property_id = Some ''p1'', res_monthly_support_hours = Some 2,
       res_is_active = True \<rparr>"

definition example_property :: property where
  "example_property = \<lparr> prop_id = ''p1'', prop_name = ''Oak House'' \<rparr>"

definition example_completed :: "string \<Rightarrow> int \<Rightarrow> session" where
  "example_completed i dur = (example_session i 540 600 dur)\<lparr> status := ''completed'' \<rparr>"

definition example_month_sessions :: "session list" where
  "example_month_sessions =
     [example_completed ''s1'' 60, example_completed ''s2'' 30, example_session ''s3'' 700 760 60]"




section \<open>The conflict query and interval overlap\<close>

lemma overlap_is_selected:
  assumes "p3 < end_time s" and "start_time s < p4"
  shows "(start_time s \<le> p3 \<and> end_time s > p3)
         \<or> (start_time s < p4 \<and> end_time s \<ge> p4)
         \<or> (start_time s \<ge> p3 \<and> end_time s \<le> p4)"
  using assms by linarith

lemma selected_is_overlap:
  assumes "p3 < p4" and "start_time s < end_time s"
    and "(start_time s \<le> p3 \<and> end_time s > p3)
         \<or> (start_time s < p4 \<and> end_time s \<ge> p4)
         \<or> (start_time s \<ge> p3 \<and> end_time s \<le> p4)"
  shows "p3 < end_time s \<and> start_time s < p4"
  using assms by linarith

text \<open>
  Claim C2. For a candidate with start before end (\<open>p3 < p4\<close>) and a stored session of
  the same worker and date that is active (neither cancelled nor no_show) and has its
  start before its end, the conflict query selects the stored session exactly when the
  two half-open intervals overlap, that is when the candidate starts before the stored
  session ends and the stored session starts before the candidate ends. Hence two
  back-to-back sessions (one ends at the minute the other starts) are never selected.
\<close>

theorem conflict_query_iff_overlap:
  assumes "p3 < p4"
    and "start_time s < end_time s"
    and "support_worker_id s = w" and "session_date s = d"
    and "status s \<noteq> ''cancelled''" and "status s \<noteq> ''no_show''"
  shows "(s \<in> set (conflict_rows db w d p3 p4)
            \<longleftrightarrow> s \<in> set db \<and> p3 < end_time s \<and> start_time s < p4)
         \<and> (conflict_where w d p3 p4 s \<longleftrightarrow> p3 < end_time s \<and> start_time s < p4)
         \<and> (end_time s = p3 \<or> p4 = start_time s
              \<longrightarrow> \<not> conflict_where w d p3 p4 s \<and> s \<notin> set (conflict_rows db w d p3 p4))"
proof -
  have w: "conflict_where w d p3 p4 s \<longleftrightarrow> p3 < end_time s \<and> start_time s < p4"
    unfolding conflict_where_def
    using assms overlap_is_selected [of p3 s p4] selected_is_overlap [of p3 p4 s]
    by blast
  have r: "s \<in> set (conflict_rows db w d p3 p4) \<longleftrightarrow> s \<in> set db \<and> conflict_where w d p3 p4 s"
    by (simp add: conflict_rows_def)
  show ?thesis
    using w r by auto
qed

text \<open>Unfolding these definitions evaluates the handlers on the example data.\<close>

lemmas eval_defs = create_def create_valid_def edit_def edit_valid_def update_row_def
  example_platform_def example_body_def example_session_def
  is_digit_def digit_val_def isInt_15_480_def int_text_def parseInt_def digits_value_def
  support_types_def statuses_def conflictCheck_def conflict_rows_def conflict_where_def
  status_or_planned_def or_null_def

text \<open>
  An instance of claim C2: a candidate 09:30 to 10:30 is in conflict with a stored
  session 09:00 to 10:00 of the same worker and date, a candidate 10:00 to 11:00 is not.
\<close>

theorem conflict_query_iff_overlap_witness:
  "conflict_where ''w1'' 19783 570 630 (example_session ''s1'' 540 600 60)
   \<and> \<not> conflict_where ''w1'' 19783 600 660 (example_session ''s1'' 540 600 60)
   \<and> example_session ''s1'' 540 600 60
       \<notin> set (conflict_rows [example_session ''s1'' 540 600 60] ''w1'' 19783 600 660)"
  using conflict_query_iff_overlap [of 570 630 "example_session ''s1'' 540 600 60" "''w1''" 19783
      "[example_session ''s1'' 540 600 60]"]
    conflict_query_iff_overlap [of 600 660 "example_session ''s1'' 540 600 60" "''w1''" 19783
      "[example_session ''s1'' 540 600 60]"]
  by (simp add: example_session_def)

section \<open>What the create handler stores\<close>







lemma create_redirect:
  assumes "create P new_id user db b = (db', Redirect r)"
  shows "create_valid P b" and "js_string_less (body_start_time b) (body_end_time b)"
    and "\<exists>d. pg_date P (body_session_date b) = Some d \<and>
          db' = db @ [\<lparr> session_id = new_id,
                        resident_id = body_resident_id b,
                        support_worker_id = body_support_worker_id b,
                        property_id = body_property_id b,
                        support_type = body_support_type b,
                        session_date = d,
                        start_time = time_of_text (body_start_time b),
                        end_time = time_of_text (body_end_time b),
                        duration_minutes = parseInt (body_duration_minutes b),
                        status = status_or_planned (body_status b),
                        session_notes = or_null (body_notes b),
                        created_by = user \<rparr>]"
  using assms unfolding create_def
  by (auto split: if_splits option.splits)





section \<open>What the create handler answers on a conflict\<close>

text \<open>
  Claim C3, as the code has it. When the request passes the validation chain and the
  end-after-start test, and the store holds an active session of the candidate's worker
  and date whose interval overlaps the candidate's, the create handler inserts nothing
  and renders the create form again with the fixed message
  \<open>Support worker is already scheduled at this time\<close> and the submitted form data. The
  response carries no id of a stored session.
\<close>

theorem create_conflict_response:
  assumes "create_valid P b"
    and "js_string_less (body_start_time b) (body_end_time b)"
    and "pg_date P (body_session_date b) = Some d"
    and "s \<in> set db"
    and "support_worker_id s = body_support_worker_id b" and "session_date s = d"
    and "status s \<noteq> ''cancelled''" and "status s \<noteq> ''no_show''"
    and "time_of_text (body_start_time b) < end_time s"
    and "start_time s < time_of_text (body_end_time b)"
  shows "create P new_id user db b
           = (db, Render ''sessions/create''
                    ''Support worker is already scheduled at this time'' b)"
proof -
  have "conflict_where (body_support_worker_id b) d
          (time_of_text (body_start_time b)) (time_of_text (body_end_time b)) s"
    unfolding conflict_where_def
    using assms(5-8) overlap_is_selected [OF assms(9,10)] by simp
  then have "s \<in> set (conflict_rows db (body_support_worker_id b) d
          (time_of_text (body_start_time b)) (time_of_text (body_end_time b)))"
    using assms(4) by (simp add: conflict_rows_def)
  then have "conflictCheck db (body_support_worker_id b) d
          (time_of_text (body_start_time b)) (time_of_text (body_end_time b)) \<noteq> []"
    unfolding conflictCheck_def by auto
  then show ?thesis
    using assms(1-3) by (simp add: create_def)
qed

theorem create_conflict_response_witness:
  "create example_platform ''s2'' ''u1'' [example_session ''s1'' 540 600 60]
       (example_body ''09:30'' ''10:30'' ''60'')
     = ([example_session ''s1'' 540 600 60],
        Render ''sessions/create'' ''Support worker is already scheduled at this time''
          (example_body ''09:30'' ''10:30'' ''60''))"
  using create_conflict_response [of example_platform "example_body ''09:30'' ''10:30'' ''60''"
      19783 "example_session ''s1'' 540 600 60" "[example_session ''s1'' 540 600 60]" "''s2''" "''u1''"]
  by (simp add: eval_defs)

text \<open>
  Claim C3 as stated fails: the id of the session in conflict is not in the response.
  Two stores whose only session has the ids \<open>s1\<close> and \<open>s7\<close> make the conflict query
  return different ids, and the create handler answers both with the same response.
\<close>

theorem conflict_id_not_in_response_counterexample:
  "conflictCheck [example_session ''s1'' 540 600 60] ''w1'' 19783 570 630 = [''s1'']
   \<and> conflictCheck [example_session ''s7'' 540 600 60] ''w1'' 19783 570 630 = [''s7'']
   \<and> snd (create example_platform ''s2'' ''u1'' [example_session ''s1'' 540 600 60]
            (example_body ''09:30'' ''10:30'' ''60''))
     = snd (create example_platform ''s2'' ''u1'' [example_session ''s7'' 540 600 60]
            (example_body ''09:30'' ''10:30'' ''60''))
   \<and> snd (create example_platform ''s2'' ''u1'' [example_session ''s1'' 540 600 60]
            (example_body ''09:30'' ''10:30'' ''60''))
     = Render ''sessions/create'' ''Support worker is already scheduled at this time''
          (example_body ''09:30'' ''10:30'' ''60'')"
  by (simp add: eval_defs)

section \<open>The update handler and conflicts\<close>

text \<open>
  The create handler and the delete handler keep a store free of conflicts: create
  inserts only when its conflict query selects no row, and every stored session that
  would be in conflict with the new one is selected.
\<close>

lemma active_overlap_sym: "active_overlap a b \<Longrightarrow> active_overlap b a"
  by (auto simp: active_overlap_def)

lemma active_overlap_irrefl: "\<not> active_overlap a a"
  by (simp add: active_overlap_def)

lemma create_keeps_overlap_free:
  assumes "overlap_free db" and "create P new_id user db b = (db', r)"
  shows "overlap_free db'"
proof (cases r)
  case (Render v m f)
  then have "db' = db"
    using assms(2) unfolding create_def by (auto split: if_splits option.splits)
  then show ?thesis using assms(1) by simp
next
  case (Redirect u)
  with assms(2) have acc: "create P new_id user db b = (db', Redirect u)" by simp
  from create_redirect(3) [OF acc] obtain d n where
    d: "pg_date P (body_session_date b) = Some d" and db': "db' = db @ [n]"
    and n: "support_worker_id n = body_support_worker_id b" "session_date n = d"
      "start_time n = time_of_text (body_start_time b)"
      "end_time n = time_of_text (body_end_time b)"
    by auto
  have none: "conflictCheck db (body_support_worker_id b) d
      (time_of_text (body_start_time b)) (time_of_text (body_end_time b)) = []"
    using acc d create_redirect(1,2) [OF acc] unfolding create_def
    by (auto split: if_splits)
  have no: "\<not> active_overlap x n" if "x \<in> set db" for x
  proof
    assume o: "active_overlap x n"
    then have "conflict_where (body_support_worker_id b) d
        (time_of_text (body_start_time b)) (time_of_text (body_end_time b)) x"
      unfolding conflict_where_def active_overlap_def n
      using overlap_is_selected [of "time_of_text (body_start_time b)" x
          "time_of_text (body_end_time b)"]
      by auto
    then have "x \<in> set (conflict_rows db (body_support_worker_id b) d
        (time_of_text (body_start_time b)) (time_of_text (body_end_time b)))"
      using that by (simp add: conflict_rows_def)
    then show False
      using none by (simp add: conflictCheck_def)
  qed
  show ?thesis
    unfolding overlap_free_def db'
    using assms(1) no active_overlap_sym [of n] active_overlap_irrefl [of n]
    by (auto simp: overlap_free_def)
qed

lemma delete_keeps_overlap_free: "overlap_free db \<Longrightarrow> overlap_free (delete db sid)"
  by (auto simp: overlap_free_def delete_def)

text \<open>
  Claim C1 fails on the update handler: it runs no conflict query. Two sessions of one
  worker on 2024-03-01 are created back to back, 09:00 to 10:00 and 10:00 to 11:00; the
  update of the second one to 09:30 to 10:30 is accepted, and the store then holds two
  active sessions of that worker and date whose intervals overlap.
\<close>

theorem edit_creates_overlap:
  "create example_platform ''s1'' ''u1'' [] (example_body ''09:00'' ''10:00'' ''60'')
     = ([example_session ''s1'' 540 600 60], Redirect ''/sessions/s1'')
   \<and> create example_platform ''s2'' ''u1'' [example_session ''s1'' 540 600 60]
         (example_body ''10:00'' ''11:00'' ''60'')
     = ([example_session ''s1'' 540 600 60, example_session ''s2'' 600 660 60],
        Redirect ''/sessions/s2'')
   \<and> edit example_platform [example_session ''s1'' 540 600 60, example_session ''s2'' 600 660 60]
         ''s2'' example_edit_body
     = ([example_session ''s1'' 540 600 60, example_session ''s2'' 570 630 60],
        Redirect ''/sessions/s2'')
   \<and> active_overlap (example_session ''s1'' 540 600 60) (example_session ''s2'' 570 630 60)"
  by (simp add: eval_defs active_overlap_def example_edit_body_def)

section \<open>Properties of the date functions\<close>























section \<open>The monthly grid\<close>






section \<open>The time slots of the weekly grid\<close>

lemma time_slots_value:
  "hour_loop 9 [] =
     [''09:00'', ''09:30'', ''10:00'', ''10:30'', ''11:00'', ''11:30'', ''12:00'', ''12:30'',
      ''13:00'', ''13:30'', ''14:00'', ''14:30'', ''15:00'', ''15:30'', ''16:00'', ''16:30'',
      ''17:00'', ''17:30'', ''18:00'']"
  by code_simp

text \<open>
  Claim C9. For every week start and every list of sessions, the time slots of the
  weekly grid are the 19 half-hour labels from 09:00 to 18:00 in ascending order, with
  no slot after 18:00.
\<close>

theorem weekly_time_slots:
  "timeSlots (generateWeeklyCalendar today startDate ss) =
     [''09:00'', ''09:30'', ''10:00'', ''10:30'', ''11:00'', ''11:30'', ''12:00'', ''12:30'',
      ''13:00'', ''13:30'', ''14:00'', ''14:30'', ''15:00'', ''15:30'', ''16:00'', ''16:30'',
      ''17:00'', ''17:30'', ''18:00'']
   \<and> length (timeSlots (generateWeeklyCalendar today startDate ss)) = 19"
  by (simp add: generateWeeklyCalendar_def time_slots_value)

theorem weekly_time_slots_witness:
  "timeSlots (generateWeeklyCalendar 19754 19750 [example_february_session]) =
     [''09:00'', ''09:30'', ''10:00'', ''10:30'', ''11:00'', ''11:30'', ''12:00'', ''12:30'',
      ''13:00'', ''13:30'', ''14:00'', ''14:30'', ''15:00'', ''15:30'', ''16:00'', ''16:30'',
      ''17:00'', ''17:30'', ''18:00'']"
  using weekly_time_slots [of 19754 19750 "[example_february_session]"] by simp

section \<open>Navigation between calendar pages\<close>



section \<open>Utilization of residents, workers and properties\<close>




section \<open>Hours used and hours remaining of a resident\<close>







section \<open>The rows of the CSV export\<close>



lemma map_rows_Inl:
  "x \<in> set xs \<Longrightarrow> f x = Inl TypeError \<Longrightarrow> (\<forall>y \<in> set xs. \<forall>e. f y = Inl e \<longrightarrow> e = TypeError)
     \<Longrightarrow> map_rows f xs = Inl TypeError"
  by (induction xs) (auto split: sum.splits)


lemma csv_cells_error: "csv_cells numtext resident = Inl e \<Longrightarrow> e = TypeError"
  by (auto simp: csv_cells_def call_toFixed1_def split: js_num.splits sum.splits)

lemma csv_cells_text:
  "\<not> is_number (hours_used resident) \<Longrightarrow> csv_cells numtext resident = Inl TypeError"
  by (simp add: csv_cells_def call_toFixed1_def is_number_def split: js_num.splits)



text \<open>
  When \<open>hours_used\<close> of some resident is a text, \<open>toFixed\<close> is not a function of it
  and \<open>generateCSV\<close> throws; the example is the row of the query delivered as texts.
\<close>

lemma csv_text_hours_throws:
  assumes "resident \<in> set residents" and "\<not> is_number (hours_used resident)"
  shows "generateCSV numtext residents = Inl TypeError"
proof -
  have "map_rows (csv_cells numtext) residents = Inl TypeError"
    using assms(1) csv_cells_text [OF assms(2)] csv_cells_error
    by (intro map_rows_Inl [of resident]) auto
  then show ?thesis by (simp add: generateCSV_def)
qed

lemma csv_text_hours_example:
  "generateCSV example_numtext (getMonthlyUtilization example_numtext
       [monthly_sql_row text_driver [example_property] example_month_sessions 2024 3
          example_resident])
     = Inl TypeError"
  by (rule csv_text_hours_throws [of "resident_report_of example_numtext
       (monthly_sql_row text_driver [example_property] example_month_sessions 2024 3
          example_resident)"])
     (simp_all add: getMonthlyUtilization_def monthly_sql_row_def resident_report_of_def
        delivered_def text_driver_def is_number_def Let_def)


end
